theory Spec2Isabelle
  imports Main "HOL-Library.Sublist"
begin

section \<open>The header navigation component of the theme (NavLinks.vue)\<close>

text \<open>
  The component computes five properties from the ambient site data: \<open>userNav\<close>, \<open>nav\<close>,
  \<open>userLinks\<close>, \<open>repoLink\<close> and \<open>repoLabel\<close>. Each is modelled as a function of a record
  holding what the property reads through \<open>this\<close>. Configuration strings that may be missing
  are \<open>string option\<close> (\<open>None\<close> is \<open>undefined\<close>); the one place where the script can throw
  is a value of \<open>js_error\<close>.
\<close>

subsection \<open>Data\<close>

datatype js_error = TypeError

text \<open>A navigation item \<open>{text, link, items, type}\<close>; every field may be missing. The
  selector of the field \<open>text\<close> is \<open>text'\<close>.\<close>

datatype nav_item = NavItem (text': "string option") (link: "string option")
  (items: "nav_item list option") (type: "string option")

text \<open>An entry of \<open>$site.locales\<close> and an entry of \<open>$site.themeConfig.locales\<close>.\<close>

record locale_config =
  lang :: "string option"

record theme_locale =
  label :: "string option"

text \<open>
  What the computed properties read. The type parameter is the representation of a
  navigation array: the list of its items where only the contents matter, a reference
  into a store of arrays where identity matters.
  \<^item> \<open>locales\<close> is \<open>$site.locales\<close>, an object whose keys are the locale paths, kept in
    insertion order as \<open>Object.keys\<close> lists them;
  \<^item> \<open>themeConfig_nav\<close>, \<open>themeConfig_locales\<close>, \<open>themeConfig_repo\<close> and
    \<open>themeConfig_repoLabel\<close> are the fields of \<open>$site.themeConfig\<close>;
  \<^item> \<open>themeLocaleConfig_nav\<close> and \<open>themeLocaleConfig_selectText\<close> are the fields of
    \<open>$themeLocaleConfig\<close>;
  \<^item> \<open>page_path\<close> is \<open>$page.path\<close>, \<open>routes\<close> the \<open>path\<close> of each entry of
    \<open>$router.options.routes\<close>, \<open>this_lang\<close> is \<open>$lang\<close> and \<open>localeConfig_path\<close> is
    \<open>$localeConfig.path\<close>.
\<close>

record 'n component =
  locales :: "(string \<times> locale_config) list option"
  themeConfig_nav :: "'n option"
  themeConfig_locales :: "(string \<rightharpoonup> theme_locale) option"
  themeConfig_repo :: "string option"
  themeConfig_repoLabel :: "string option"
  themeLocaleConfig_nav :: "'n option"
  themeLocaleConfig_selectText :: "string option"
  page_path :: string
  routes :: "string list"
  this_lang :: string
  localeConfig_path :: "string option"

subsection \<open>JavaScript strings\<close>

text \<open>Truthiness of a possibly missing string: \<open>undefined\<close> and \<open>""\<close> are falsy.\<close>

definition truthy :: "string option \<Rightarrow> bool" where
  "truthy v = (case v of None \<Rightarrow> False | Some s \<Rightarrow> s \<noteq> [])"

text \<open>\<open>a || b\<close> on possibly missing strings.\<close>

definition js_or :: "string option \<Rightarrow> string option \<Rightarrow> string option" where
  "js_or a b = (if truthy a then a else b)"

text \<open>
  The first occurrence of \<open>pat\<close> in \<open>s\<close>: the text before it and the text after it.
  The empty pattern occurs at position 0.
\<close>

fun split_first :: "string \<Rightarrow> string \<Rightarrow> (string \<times> string) option" where
  "split_first pat [] = (if pat = [] then Some ([], []) else None)"
| "split_first pat (c # cs) =
     (if prefix pat (c # cs) then Some ([], drop (length pat) (c # cs))
      else (case split_first pat cs of
              None \<Rightarrow> None
            | Some (pre, post) \<Rightarrow> Some (c # pre, post)))"

text \<open>
  The replacement text of \<open>String.prototype.replace\<close> for a string pattern (ECMAScript
  GetSubstitution with no captures): in the template \<open>$$\<close> stands for \<open>$\<close>, \<open>$&\<close> for
  the matched text, \<open>$`\<close> for the text before the match and \<open>$'\<close> for the text after
  it; every other character stands for itself.
\<close>

fun getSubstitution :: "string \<Rightarrow> string \<Rightarrow> string \<Rightarrow> string \<Rightarrow> string" where
  "getSubstitution matched pre post [] = []"
| "getSubstitution matched pre post [c] = [c]"
| "getSubstitution matched pre post (c # d # r) =
     (if c = CHR ''$'' then
        (if d = CHR ''$'' then CHR ''$'' # getSubstitution matched pre post r
         else if d = CHR ''&'' then matched @ getSubstitution matched pre post r
         else if d = CHR 0x60 then pre @ getSubstitution matched pre post r
         else if d = CHR 0x27 then post @ getSubstitution matched pre post r
         else c # getSubstitution matched pre post (d # r))
      else c # getSubstitution matched pre post (d # r))"

text \<open>
  \<open>s.replace(pat, rep)\<close> with a pattern that is not a regular expression: only the first
  occurrence is replaced. A missing pattern is converted to the string \<open>undefined\<close>.
\<close>

definition js_replace :: "string \<Rightarrow> string option \<Rightarrow> string \<Rightarrow> string" where
  "js_replace s pat rep =
     (let searchString = (case pat of None \<Rightarrow> ''undefined'' | Some p \<Rightarrow> p)
      in case split_first searchString s of
           None \<Rightarrow> s
         | Some (pre, post) \<Rightarrow> pre @ getSubstitution searchString pre post rep @ post)"

text \<open>The regular expression \<open>/^https?:/\<close>: the matched text and what follows it.\<close>

definition match_http_scheme :: "string \<Rightarrow> (string \<times> string) option" where
  "match_http_scheme s =
     (if prefix ''https:'' s then Some (''https:'', drop 6 s)
      else if prefix ''http:'' s then Some (''http:'', drop 5 s)
      else None)"

text \<open>
  \<open>s.match(/^https?:\/\/[^/]+/)\<close>: the matched text, or \<open>None\<close> for \<open>null\<close>. The class
  \<open>[^/]+\<close> takes the longest run of characters other than the slash, and needs one.
\<close>

definition match_origin :: "string \<Rightarrow> string option" where
  "match_origin s =
     (case match_http_scheme s of
        None \<Rightarrow> None
      | Some (scheme, r) \<Rightarrow>
          (if prefix ''//'' r then
             (let host = takeWhile (\<lambda>c. c \<noteq> CHR ''/'') (drop 2 r)
              in if host = [] then None else Some (scheme @ ''//'' @ host))
           else None))"

text \<open>
  Case folding of the \<open>i\<close> flag. The patterns used are ASCII letters, for which the
  canonical form of a character is its ASCII upper case.
\<close>

definition toUpperCase :: "char \<Rightarrow> char" where
  "toUpperCase c =
     (case map_of (zip ''abcdefghijklmnopqrstuvwxyz'' ''ABCDEFGHIJKLMNOPQRSTUVWXYZ'') c of
        None \<Rightarrow> c
      | Some u \<Rightarrow> u)"

text \<open>\<open>new RegExp(p, 'i').test(s)\<close> for a pattern of letters: \<open>p\<close> occurs in \<open>s\<close>, case ignored.\<close>

fun regexp_i_test :: "string \<Rightarrow> string \<Rightarrow> bool" where
  "regexp_i_test p [] = (p = [])"
| "regexp_i_test p (c # cs) =
     (if prefix (map toUpperCase p) (map toUpperCase (c # cs)) then True
      else regexp_i_test p cs)"

subsection \<open>The repository link and its label\<close>

text \<open>
  \<^verbatim>\<open>repoLink () {
    const { repo } = this.$site.themeConfig
    if (repo) {
      return /^https?:/.test(repo) ? repo : `https://github.com/${repo}`
    }
  }\<close>
\<close>

definition repoLink :: "'n component \<Rightarrow> string option" where
  "repoLink c =
     (case themeConfig_repo c of
        None \<Rightarrow> None
      | Some repo \<Rightarrow>
          (if repo = [] then None
           else if match_http_scheme repo \<noteq> None then Some repo
           else Some (''https://github.com/'' @ repo)))"

text \<open>The loop of \<open>repoLabel\<close> over the platform names, with the \<open>return 'Source'\<close> after it.\<close>

fun platform_loop :: "string list \<Rightarrow> string \<Rightarrow> string" where
  "platform_loop [] repoHost = ''Source''"
| "platform_loop (platform # rest) repoHost =
     (if regexp_i_test platform repoHost then platform else platform_loop rest repoHost)"

text \<open>
  \<^verbatim>\<open>repoLabel () {
    if (!this.repoLink) return
    if (this.$site.themeConfig.repoLabel) {
      return this.$site.themeConfig.repoLabel
    }
    const repoHost = this.repoLink.match(/^https?:\/\/[^/]+/)[0]
    const platforms = ['GitHub', 'GitLab', 'Bitbucket']
    for (...) { if (new RegExp(platform, 'i').test(repoHost)) return platform }
    return 'Source'
  }\<close>
  Indexing the \<open>null\<close> that \<open>match\<close> returns when the expression does not match throws a
  TypeError.
\<close>

definition repoLabel :: "'n component \<Rightarrow> js_error + string option" where
  "repoLabel c =
     (if \<not> truthy (repoLink c) then Inr None
      else if truthy (themeConfig_repoLabel c) then Inr (themeConfig_repoLabel c)
      else (case match_origin (case repoLink c of None \<Rightarrow> [] | Some l \<Rightarrow> l) of
              None \<Rightarrow> Inl TypeError
            | Some repoHost \<Rightarrow>
                Inr (Some (platform_loop [''GitHub'', ''GitLab'', ''Bitbucket''] repoHost))))"

subsection \<open>The navigation entries\<close>

text \<open>
  \<^verbatim>\<open>userNav () {
    return this.$themeLocaleConfig.nav || this.$site.themeConfig.nav || []
  }\<close>
  An array is truthy, also when it is empty.
\<close>

definition userNav :: "nav_item list component \<Rightarrow> nav_item list" where
  "userNav c =
     (case themeLocaleConfig_nav c of
        Some n \<Rightarrow> n
      | None \<Rightarrow> (case themeConfig_nav c of Some n \<Rightarrow> n | None \<Rightarrow> []))"

text \<open>
  The body of the function mapped over the locale paths in \<open>nav\<close>, for the key \<open>path\<close>
  and the value \<open>loc\<close> stored under it:
  \<^verbatim>\<open>const text = themeLocales[path] && themeLocales[path].label || locale.lang
  let link
  if (locale.lang === this.$lang) {
    link = currentLink
  } else {
    link = currentLink.replace(this.$localeConfig.path, path)
    if (!routes.some(route => route.path === link)) {
      link = path
    }
  }
  return { text, link }\<close>
\<close>

definition locale_link :: "'n component \<Rightarrow> string \<Rightarrow> locale_config \<Rightarrow> string" where
  "locale_link c path loc =
     (if lang loc = Some (this_lang c) then page_path c
      else (let link = js_replace (page_path c) (localeConfig_path c) path
            in if \<not> list_ex (\<lambda>route. route = link) (routes c) then path else link))"

definition locale_item :: "'n component \<Rightarrow> string \<Rightarrow> locale_config \<Rightarrow> nav_item" where
  "locale_item c path loc =
     (let themeLocales = (case themeConfig_locales c of None \<Rightarrow> Map.empty | Some m \<Rightarrow> m);
          text = js_or (case themeLocales path of None \<Rightarrow> None | Some t \<Rightarrow> label t) (lang loc)
      in NavItem text (Some (locale_link c path loc)) None None)"

text \<open>
  The object \<open>languageDropdown\<close> built in \<open>nav\<close>. \<open>Object.keys(locales)\<close> lists the keys
  in order and \<open>locales[path]\<close> is the value stored under the key.
\<close>

definition languageDropdown :: "'n component \<Rightarrow> (string \<times> locale_config) list \<Rightarrow> nav_item" where
  "languageDropdown c ls =
     NavItem (js_or (themeLocaleConfig_selectText c) (Some ''Languages'')) None
       (Some (map (\<lambda>(path, loc). locale_item c path loc) ls)) None"

text \<open>
  \<^verbatim>\<open>nav () {
    const { locales } = this.$site
    if (locales && Object.keys(locales).length > 1) {
      ...
      return [...this.userNav, languageDropdown]
    }
    return this.userNav
  }\<close>
\<close>

definition nav :: "nav_item list component \<Rightarrow> nav_item list" where
  "nav c =
     (case locales c of
        None \<Rightarrow> userNav c
      | Some ls \<Rightarrow>
          (if length ls > 1 then userNav c @ [languageDropdown c ls] else userNav c))"

text \<open>
  Modelled from the spec: \<open>resolveNavLinkItem\<close> is imported from \<open>./util\<close>, which is not
  among the sources. The specification has a record that carries items resolve to a
  dropdown (rendered where \<open>type\<close> is \<open>links\<close>), and any other record to a plain link,
  with an empty target when the record has no link; a dropdown has a non-empty sequence
  of items.
\<close>

definition resolveNavLinkItem :: "nav_item \<Rightarrow> nav_item" where
  "resolveNavLinkItem linkItem =
     (case items linkItem of
        Some (x # xs) \<Rightarrow> NavItem (text' linkItem) (link linkItem) (items linkItem) (Some ''links'')
      | _ \<Rightarrow>
          NavItem (text' linkItem) (Some (case link linkItem of None \<Rightarrow> [] | Some l \<Rightarrow> l))
            (items linkItem) (Some ''link''))"

text \<open>
  \<^verbatim>\<open>userLinks () {
    return (this.nav || []).map(link => {
      return Object.assign(resolveNavLinkItem(link), {
        items: (link.items || []).map(resolveNavLinkItem)
      })
    })
  }\<close>
\<close>

definition userLinks :: "nav_item list component \<Rightarrow> nav_item list" where
  "userLinks c =
     map (\<lambda>link'.
            (let resolved = resolveNavLinkItem link'
             in NavItem (text' resolved) (link resolved)
                  (Some (map resolveNavLinkItem (case items link' of None \<Rightarrow> [] | Some xs \<Rightarrow> xs)))
                  (type resolved)))
         (nav c)"

subsection \<open>Navigation arrays as references\<close>

text \<open>
  Whether \<open>nav\<close> changes the array it is given, and whether the array it returns is a new
  one, is a matter of identity. Here an array is an address in a store; the store only
  grows, by allocation at the next free address.
\<close>

type_synonym ref = nat
type_synonym store = "nav_item list list"

definition deref :: "store \<Rightarrow> ref \<Rightarrow> nav_item list option" where
  "deref h r = (if r < length h then Some (h ! r) else None)"

definition alloc :: "nav_item list \<Rightarrow> store \<Rightarrow> ref \<times> store" where
  "alloc xs h = (length h, h @ [xs])"

text \<open>\<open>userNav\<close>: the array of the configuration itself, or a new empty array.\<close>

definition userNav_ref :: "ref component \<Rightarrow> store \<Rightarrow> ref \<times> store" where
  "userNav_ref c h =
     (case themeLocaleConfig_nav c of
        Some r \<Rightarrow> (r, h)
      | None \<Rightarrow> (case themeConfig_nav c of Some r \<Rightarrow> (r, h) | None \<Rightarrow> alloc [] h))"

text \<open>
  \<open>nav\<close>: the spread \<open>[...this.userNav, languageDropdown]\<close> reads the base array and
  allocates the result; the other branch returns the base array itself. \<open>None\<close> stands
  for a reference to no array of the store, which a running script cannot hold.
\<close>

definition nav_ref :: "ref component \<Rightarrow> store \<Rightarrow> (ref \<times> store) option" where
  "nav_ref c h =
     (let (base, h1) = userNav_ref c h
      in case locales c of
           None \<Rightarrow> Some (base, h1)
         | Some ls \<Rightarrow>
             (if length ls > 1 then
                (case deref h1 base of
                   None \<Rightarrow> None
                 | Some xs \<Rightarrow> Some (alloc (xs @ [languageDropdown c ls]) h1))
              else Some (base, h1)))"

text \<open>The references of the configuration point into the store.\<close>

definition valid_refs :: "ref component \<Rightarrow> store \<Rightarrow> bool" where
  "valid_refs c h =
     ((case themeLocaleConfig_nav c of None \<Rightarrow> True | Some r \<Rightarrow> r < length h) \<and>
      (case themeConfig_nav c of None \<Rightarrow> True | Some r \<Rightarrow> r < length h))"

text \<open>The component with each array reference replaced by the contents of the array.\<close>

definition load :: "store \<Rightarrow> ref component \<Rightarrow> nav_item list component" where
  "load h c =
     \<lparr>locales = locales c,
      themeConfig_nav = Option.bind (themeConfig_nav c) (deref h),
      themeConfig_locales = themeConfig_locales c,
      themeConfig_repo = themeConfig_repo c,
      themeConfig_repoLabel = themeConfig_repoLabel c,
      themeLocaleConfig_nav = Option.bind (themeLocaleConfig_nav c) (deref h),
      themeLocaleConfig_selectText = themeLocaleConfig_selectText c,
      page_path = page_path c,
      routes = routes c,
      this_lang = this_lang c,
      localeConfig_path = localeConfig_path c\<rparr>"

subsection \<open>The specification's reading of the operations\<close>

text \<open>
  The target of a locale entry as the specification words it: the current path when the
  language tags agree; otherwise the current path with the current locale's prefix
  replaced by the candidate's, when that is a known route, and else the candidate's
  prefix alone.
\<close>

definition spec_replace_prefix :: "string \<Rightarrow> string \<Rightarrow> string \<Rightarrow> string" where
  "spec_replace_prefix currentPrefix candidatePrefix currentPath =
     (if prefix currentPrefix currentPath
      then candidatePrefix @ drop (length currentPrefix) currentPath
      else currentPath)"

definition spec_locale_link ::
  "string \<Rightarrow> string \<Rightarrow> string \<Rightarrow> string list \<Rightarrow> string \<Rightarrow> string option \<Rightarrow> string" where
  "spec_locale_link currentTag currentPrefix currentPath knownRoutePaths candidatePrefix tag =
     (if tag = Some currentTag then currentPath
      else (let candidate = spec_replace_prefix currentPrefix candidatePrefix currentPath
            in if candidate \<in> set knownRoutePaths then candidate else candidatePrefix))"

text \<open>The text of the switcher as the specification words it: \<open>selectText ?? "Languages"\<close>.\<close>

definition spec_select_text :: "string option \<Rightarrow> string" where
  "spec_select_text selectText = (case selectText of None \<Rightarrow> ''Languages'' | Some s \<Rightarrow> s)"

text \<open>
  The label as the specification words it: the explicit label when one is provided,
  and else the first of the platform names found in the origin, case ignored, or
  \<open>Source\<close>.
\<close>

definition spec_repo_label :: "string option \<Rightarrow> string \<Rightarrow> string" where
  "spec_repo_label explicitLabel origin =
     (case explicitLabel of
        Some l \<Rightarrow> l
      | None \<Rightarrow>
          (case find (\<lambda>p. regexp_i_test p origin) [''GitHub'', ''GitLab'', ''Bitbucket''] of
             Some p \<Rightarrow> p
           | None \<Rightarrow> ''Source''))"

subsection \<open>A site with two locales\<close>

text \<open>
  The scenario of the specification: an English site at \<open>/\<close> and a French one at
  \<open>/fr/\<close>, the reader on the English page \<open>/guide/intro.html\<close>, which exists in French.
\<close>

definition example_site :: "nav_item list component" where
  "example_site =
     \<lparr>locales = Some [(''/'', \<lparr>lang = Some ''en-US''\<rparr>), (''/fr/'', \<lparr>lang = Some ''fr-FR''\<rparr>)],
      themeConfig_nav = Some [NavItem (Some ''Guide'') (Some ''/guide/'') None None],
      themeConfig_locales = None,
      themeConfig_repo = Some ''acme/widget'',
      themeConfig_repoLabel = None,
      themeLocaleConfig_nav = None,
      themeLocaleConfig_selectText = None,
      page_path = ''/guide/intro.html'',
      routes = [''/'', ''/guide/intro.html'', ''/fr/'', ''/fr/guide/intro.html''],
      this_lang = ''en-US'',
      localeConfig_path = Some ''/''\<rparr>"

text \<open>The same site with its navigation array at address 0 of a store.\<close>

definition example_store :: store where
  "example_store = [[NavItem (Some ''Guide'') (Some ''/guide/'') None None]]"

definition example_site_ref :: "ref component" where
  "example_site_ref =
     \<lparr>locales = Some [(''/'', \<lparr>lang = Some ''en-US''\<rparr>), (''/fr/'', \<lparr>lang = Some ''fr-FR''\<rparr>)],
      themeConfig_nav = Some 0,
      themeConfig_locales = None,
      themeConfig_repo = Some ''acme/widget'',
      themeConfig_repoLabel = None,
      themeLocaleConfig_nav = None,
      themeLocaleConfig_selectText = None,
      page_path = ''/guide/intro.html'',
      routes = [''/'', ''/guide/intro.html'', ''/fr/'', ''/fr/guide/intro.html''],
      this_lang = ''en-US'',
      localeConfig_path = Some ''/''\<rparr>"

text \<open>
  A site whose second locale lives under a directory named \<open>$&\<close>, the reader on the
  English page \<open>/guide/\<close>, which exists under the second locale.
\<close>

definition example_dollar :: "nav_item list component" where
  "example_dollar =
     \<lparr>locales = Some [(''/'', \<lparr>lang = Some ''en-US''\<rparr>), (''/$&/'', \<lparr>lang = Some ''fr-FR''\<rparr>)],
      themeConfig_nav = None,
      themeConfig_locales = None,
      themeConfig_repo = None,
      themeConfig_repoLabel = None,
      themeLocaleConfig_nav = None,
      themeLocaleConfig_selectText = None,
      page_path = ''/guide/'',
      routes = [''/'', ''/guide/'', ''/$&/'', ''/$&/guide/''],
      this_lang = ''en-US'',
      localeConfig_path = Some ''/''\<rparr>"

section \<open>Properties\<close>

subsection \<open>String replacement and matching\<close>

text \<open>A template without \<open>$\<close> is inserted as it is.\<close>

lemma getSubstitution_plain:
  "CHR ''$'' \<notin> set rep \<Longrightarrow> getSubstitution matched pre post rep = rep"
  by (induction matched pre post rep rule: getSubstitution.induct) auto

text \<open>A pattern at the start of the string is its first occurrence.\<close>

lemma split_first_prefix:
  "prefix pat s \<Longrightarrow> split_first pat s = Some ([], drop (length pat) s)"
  by (cases s) auto

lemma js_replace_prefix:
  assumes "prefix cur p" and "CHR ''$'' \<notin> set rep"
  shows "js_replace p (Some cur) rep = rep @ drop (length cur) p"
  using assms by (simp add: js_replace_def split_first_prefix getSubstitution_plain)

text \<open>The test under the \<open>i\<close> flag is containment up to case.\<close>

lemma regexp_i_test_iff:
  "regexp_i_test p s \<longleftrightarrow> (\<exists>pre post. map toUpperCase s = pre @ map toUpperCase p @ post)"
proof (induction s)
  case Nil
  then show ?case by auto
next
  case (Cons c cs)
  show ?case
  proof (cases "prefix (map toUpperCase p) (map toUpperCase (c # cs))")
    case True
    then obtain post where "map toUpperCase (c # cs) = map toUpperCase p @ post"
      by (auto simp: prefix_def)
    then have "map toUpperCase (c # cs) = [] @ map toUpperCase p @ post" by simp
    with True show ?thesis by (metis regexp_i_test.simps(2))
  next
    case False
    have "(\<exists>pre post. map toUpperCase (c # cs) = pre @ map toUpperCase p @ post) \<longleftrightarrow>
          (\<exists>pre post. map toUpperCase cs = pre @ map toUpperCase p @ post)"
    proof
      assume "\<exists>pre post. map toUpperCase (c # cs) = pre @ map toUpperCase p @ post"
      then obtain pre post where e: "map toUpperCase (c # cs) = pre @ map toUpperCase p @ post"
        by blast
      show "\<exists>pre post. map toUpperCase cs = pre @ map toUpperCase p @ post"
      proof (cases pre)
        case Nil
        with e have "prefix (map toUpperCase p) (map toUpperCase (c # cs))"
          by (simp add: prefix_def)
        with False show ?thesis by simp
      next
        case (Cons a pre')
        with e have "map toUpperCase cs = pre' @ map toUpperCase p @ post" by simp
        then show ?thesis by blast
      qed
    next
      assume "\<exists>pre post. map toUpperCase cs = pre @ map toUpperCase p @ post"
      then obtain pre post where "map toUpperCase cs = pre @ map toUpperCase p @ post" by blast
      then have "map toUpperCase (c # cs) = (toUpperCase c # pre) @ map toUpperCase p @ post"
        by simp
      then show "\<exists>pre post. map toUpperCase (c # cs) = pre @ map toUpperCase p @ post"
        by blast
    qed
    with False Cons.IH show ?thesis by simp
  qed
qed

text \<open>The loop over the platform names returns the first name that is found.\<close>

lemma platform_loop_find:
  "platform_loop ps h = (case find (\<lambda>p. regexp_i_test p h) ps of Some p \<Rightarrow> p | None \<Rightarrow> ''Source'')"
  by (induction ps) auto

text \<open>
  The origin of a link that starts with a scheme, two slashes and a non-empty host: the
  host ends at the first slash or at the end of the link.
\<close>

lemma match_origin_parts:
  assumes "scheme = ''http:'' \<or> scheme = ''https:''" and "host \<noteq> []"
    and "CHR ''/'' \<notin> set host" and "rest = [] \<or> hd rest = CHR ''/''"
  shows "match_origin (scheme @ ''//'' @ host @ rest) = Some (scheme @ ''//'' @ host)"
proof -
  have t: "takeWhile (\<lambda>c. c \<noteq> CHR ''/'') (host @ rest) = host"
  proof -
    have "takeWhile (\<lambda>c. c \<noteq> CHR ''/'') rest = []"
      using assms(4) by (cases rest) auto
    moreover have "\<forall>x\<in>set host. x \<noteq> CHR ''/''" using assms(3) by auto
    ultimately show ?thesis by (simp add: takeWhile_append2)
  qed
  from assms(1) show ?thesis
  proof
    assume "scheme = ''http:''"
    then show ?thesis using t assms(2)
      by (simp add: match_origin_def match_http_scheme_def)
  next
    assume "scheme = ''https:''"
    then show ?thesis using t assms(2)
      by (simp add: match_origin_def match_http_scheme_def)
  qed
qed

lemma repoLink_nonempty: "repoLink c = Some l \<Longrightarrow> l \<noteq> []"
  by (auto simp: repoLink_def split: option.splits if_splits)

lemma repoLabel_present:
  assumes "repoLink c = Some l"
  shows "repoLabel c =
    (if truthy (themeConfig_repoLabel c) then Inr (themeConfig_repoLabel c)
     else (case match_origin l of
             None \<Rightarrow> Inl TypeError
           | Some repoHost \<Rightarrow>
               Inr (Some (platform_loop [''GitHub'', ''GitLab'', ''Bitbucket''] repoHost))))"
  using assms repoLink_nonempty [OF assms] by (simp add: repoLabel_def truthy_def)

subsection \<open>The language switcher\<close>

lemma nav_multi:
  "locales c = Some ls \<Longrightarrow> length ls > 1 \<Longrightarrow> nav c = userNav c @ [languageDropdown c ls]"
  by (simp add: nav_def)

lemma last_nav_multi:
  "locales c = Some ls \<Longrightarrow> length ls > 1 \<Longrightarrow> last (nav c) = languageDropdown c ls"
  by (simp add: nav_multi)

lemma locale_link_spec:
  assumes "localeConfig_path c = Some cur" and "prefix cur (page_path c)"
    and "CHR ''$'' \<notin> set path"
  shows "locale_link c path loc =
    spec_locale_link (this_lang c) cur (page_path c) (routes c) path (lang loc)"
  using assms
  by (auto simp add: locale_link_def spec_locale_link_def spec_replace_prefix_def
      js_replace_prefix list_ex_iff Let_def)

lemma type_resolved_dropdown:
  "items i = Some (x # xs) \<Longrightarrow> type (resolveNavLinkItem i) = Some ''links''"
  by (simp add: resolveNavLinkItem_def)

lemma text_resolveNavLinkItem: "text' (resolveNavLinkItem i) = text' i"
  by (simp add: resolveNavLinkItem_def split: option.splits list.splits)

text \<open>
  Where the current locale's path starts the current path and no locale path contains
  \<open>$\<close>, the replacement is the plain one: each entry of the switcher links to the
  current path when the language tags agree, otherwise to the current path with the
  current locale's prefix replaced by the entry's own when that is a known route, and to
  the entry's prefix alone when it is not.
\<close>

lemma nav_locale_links:
  assumes "locales c = Some ls" and "1 < length ls"
    and "localeConfig_path c = Some cur" and "prefix cur (page_path c)"
    and "CHR ''$'' \<notin> set (concat (map fst ls))"
  shows "map_option (map link) (items (last (nav c))) =
    Some (map (\<lambda>(path, loc).
            Some (spec_locale_link (this_lang c) cur (page_path c) (routes c) path (lang loc))) ls)"
proof -
  have "link (locale_item c path loc) =
      Some (spec_locale_link (this_lang c) cur (page_path c) (routes c) path (lang loc))"
    if "(path, loc) \<in> set ls" for path loc
  proof -
    from that assms(5) have "CHR ''$'' \<notin> set path" by force
    with assms(3,4) show ?thesis
      by (simp add: locale_item_def Let_def locale_link_spec)
  qed
  then have "map link (map (\<lambda>(path, loc). locale_item c path loc) ls) =
      map (\<lambda>(path, loc).
        Some (spec_locale_link (this_lang c) cur (page_path c) (routes c) path (lang loc))) ls"
    by auto
  with assms(1,2) show ?thesis
    by (simp add: last_nav_multi languageDropdown_def)
qed

lemma nav_locale_links_example:
  "locales example_site = Some [(''/'', \<lparr>lang = Some ''en-US''\<rparr>), (''/fr/'', \<lparr>lang = Some ''fr-FR''\<rparr>)]
   \<and> localeConfig_path example_site = Some ''/''
   \<and> prefix ''/'' (page_path example_site)
   \<and> map_option (map link) (items (last (nav example_site))) =
       Some [Some ''/guide/intro.html'', Some ''/fr/guide/intro.html'']
   \<and> map_option (map link) (items (last (nav (example_site\<lparr>routes := [''/'', ''/fr/'']\<rparr>)))) =
       Some [Some ''/guide/intro.html'', Some ''/fr/'']"
proof -
  let ?ls = "[(''/'', \<lparr>lang = Some ''en-US''\<rparr>), (''/fr/'', \<lparr>lang = Some ''fr-FR''\<rparr>)]"
  let ?c = "example_site\<lparr>routes := [''/'', ''/fr/'']\<rparr>"
  have l: "locales example_site = Some ?ls"
    and p: "localeConfig_path example_site = Some ''/''"
    and q: "prefix ''/'' (page_path example_site)"
    by (simp_all add: example_site_def)
  have l': "locales ?c = Some ?ls"
    and p': "localeConfig_path ?c = Some ''/''"
    and q': "prefix ''/'' (page_path ?c)"
    by (simp_all add: example_site_def)
  have n: "1 < length ?ls"
    and d: "CHR ''$'' \<notin> set (concat (map fst ?ls))"
    by simp_all
  have "spec_locale_link (this_lang example_site) ''/'' (page_path example_site)
      (routes example_site) ''/'' (Some ''en-US'') = ''/guide/intro.html''"
    and "spec_locale_link (this_lang example_site) ''/'' (page_path example_site)
      (routes example_site) ''/fr/'' (Some ''fr-FR'') = ''/fr/guide/intro.html''"
    by (simp_all add: example_site_def spec_locale_link_def spec_replace_prefix_def)
  with nav_locale_links [OF l n p q d]
  have 1: "map_option (map link) (items (last (nav example_site))) =
      Some [Some ''/guide/intro.html'', Some ''/fr/guide/intro.html'']"
    by simp
  have "spec_locale_link (this_lang ?c) ''/'' (page_path ?c) (routes ?c) ''/'' (Some ''en-US'') =
      ''/guide/intro.html''"
    and "spec_locale_link (this_lang ?c) ''/'' (page_path ?c) (routes ?c) ''/fr/''
      (Some ''fr-FR'') = ''/fr/''"
    by (simp_all add: example_site_def spec_locale_link_def spec_replace_prefix_def)
  with nav_locale_links [OF l' n p' q' d]
  have 2: "map_option (map link) (items (last (nav ?c))) =
      Some [Some ''/guide/intro.html'', Some ''/fr/'']"
    by simp
  from l p q 1 2 show ?thesis by simp
qed

subsection \<open>The store of arrays\<close>

lemma userNav_ref_cases:
  assumes "valid_refs c h"
  obtains (config) base where "userNav_ref c h = (base, h)" and "base < length h"
  | (fresh) "userNav_ref c h = (length h, h @ [[]])"
  using assms
  by (auto simp: userNav_ref_def valid_refs_def alloc_def split: option.splits)

lemma deref_append: "a < length h \<Longrightarrow> deref (h @ k) a = deref h a"
  by (simp add: deref_def nth_append)

lemma deref_alloc: "deref (h @ [xs]) (length h) = Some xs"
  by (simp add: deref_def)

text \<open>The store view and the list view of \<open>nav\<close> compute the same array.\<close>

lemma load_fields:
  "locales (load h c) = locales c"
  "themeConfig_locales (load h c) = themeConfig_locales c"
  "themeLocaleConfig_selectText (load h c) = themeLocaleConfig_selectText c"
  "page_path (load h c) = page_path c"
  "routes (load h c) = routes c"
  "this_lang (load h c) = this_lang c"
  "localeConfig_path (load h c) = localeConfig_path c"
  "themeConfig_nav (load h c) = Option.bind (themeConfig_nav c) (deref h)"
  "themeLocaleConfig_nav (load h c) = Option.bind (themeLocaleConfig_nav c) (deref h)"
  by (simp_all add: load_def)

lemma locale_item_load: "locale_item (load h c) path loc = locale_item c path loc"
  by (simp add: locale_item_def locale_link_def load_fields)

lemma languageDropdown_load: "languageDropdown (load h c) ls = languageDropdown c ls"
  by (simp add: languageDropdown_def locale_item_load load_fields)

lemma userNav_ref_load:
  assumes "valid_refs c h" and "userNav_ref c h = (base, h1)"
  shows "deref h1 base = Some (userNav (load h c))"
proof (cases "themeLocaleConfig_nav c")
  case (Some r)
  with assms show ?thesis
    by (simp add: userNav_ref_def userNav_def load_fields valid_refs_def deref_def)
next
  case None
  note tl = this
  show ?thesis
  proof (cases "themeConfig_nav c")
    case (Some r)
    with tl assms show ?thesis
      by (simp add: userNav_ref_def userNav_def load_fields valid_refs_def deref_def)
  next
    case None
    with tl assms have "base = length h" "h1 = h @ [[]]"
      by (simp_all add: userNav_ref_def alloc_def)
    with tl None show ?thesis
      by (simp add: userNav_def load_fields deref_def)
  qed
qed

lemma nav_ref_load:
  assumes "valid_refs c h"
  shows "\<exists>r h'. nav_ref c h = Some (r, h') \<and> deref h' r = Some (nav (load h c))"
proof -
  obtain base h1 where u: "userNav_ref c h = (base, h1)" by (cases "userNav_ref c h")
  from userNav_ref_load [OF assms u]
  have x: "deref h1 base = Some (userNav (load h c))" .
  show ?thesis
  proof (cases "locales c")
    case None
    with u x show ?thesis by (simp add: nav_ref_def nav_def load_fields)
  next
    case (Some ls)
    show ?thesis
    proof (cases "1 < length ls")
      case True
      with Some u x show ?thesis
        by (simp add: nav_ref_def nav_def load_fields alloc_def deref_alloc
            languageDropdown_load)
    next
      case False
      with Some u x show ?thesis by (simp add: nav_ref_def nav_def load_fields)
    qed
  qed
qed

section \<open>The claims of the specification\<close>

text \<open>
  Claim C1. For every configured locale whose language tag is not the current one, the
  switcher should link to the current path with the current locale's prefix replaced by
  the locale's own whenever that path is a known route. The code tries to, and misses
  for a locale path that contains \<open>$&\<close>: \<open>replace\<close> expands it in the replacement
  to the matched text, so for the locales \<open>/\<close> and \<open>/$&/\<close>, on the page \<open>/guide/\<close> with
  the route \<open>/$&/guide/\<close> known, the candidate is \<open>///guide/\<close> and the entry links to
  the home page \<open>/$&/\<close> of the locale.
\<close>

theorem nav_locale_link_dollar:
  "nav example_dollar =
     [NavItem (Some ''Languages'') None
        (Some [NavItem (Some ''en-US'') (Some ''/guide/'') None None,
               NavItem (Some ''fr-FR'') (Some ''/$&/'') None None]) None]
   \<and> spec_locale_link (this_lang example_dollar) ''/'' (page_path example_dollar)
        (routes example_dollar) ''/$&/'' (Some ''fr-FR'') = ''/$&/guide/''
   \<and> locale_link example_dollar ''/$&/'' \<lparr>lang = Some ''fr-FR''\<rparr> \<noteq>
       spec_locale_link (this_lang example_dollar) ''/'' (page_path example_dollar)
        (routes example_dollar) ''/$&/'' (Some ''fr-FR'')
   \<and> js_replace ''/guide/'' (Some ''/'') ''/$&/'' = ''///guide/''"
  by (simp add: example_dollar_def nav_def userNav_def languageDropdown_def locale_item_def
      locale_link_def js_replace_def js_or_def truthy_def spec_locale_link_def
      spec_replace_prefix_def)

text \<open>
  Claim C2 says that the four operations never raise. \<open>repoLabel\<close> does: a repository
  reference that starts with \<open>http:\<close> and has no \<open>//\<close> after it passes through
  \<open>repoLink\<close> unchanged, the expression for the origin does not match it, and indexing
  the result of \<open>match\<close> throws.
\<close>

theorem repoLabel_raises:
  "repoLink (example_site\<lparr>themeConfig_repo := Some ''http:x''\<rparr>) = Some ''http:x''
   \<and> repoLabel (example_site\<lparr>themeConfig_repo := Some ''http:x''\<rparr>) = Inl TypeError"
  by (simp add: example_site_def repoLabel_def repoLink_def truthy_def match_origin_def
      match_http_scheme_def)

text \<open>
  Claim C3. When \<open>locales\<close> has more than one entry, \<open>nav\<close> returns one entry more than
  the base list, the base entries come first in their order, and the last entry is the
  language switcher: it has no link, one item for each locale, and resolves to the type
  \<open>links\<close> of a dropdown.
\<close>

theorem nav_appends_dropdown:
  assumes "locales c = Some ls" and "1 < length ls"
  shows "length (nav c) = length (userNav c) + 1
    \<and> take (length (userNav c)) (nav c) = userNav c
    \<and> last (nav c) = languageDropdown c ls
    \<and> link (last (nav c)) = None
    \<and> map_option length (items (last (nav c))) = Some (length ls)
    \<and> type (last (userLinks c)) = Some ''links''"
proof -
  have n: "nav c = userNav c @ [languageDropdown c ls]"
    using assms by (rule nav_multi)
  from assms(2) obtain e es where ls: "ls = e # es" by (cases ls) auto
  have "items (languageDropdown c ls) =
      Some (locale_item c (fst e) (snd e) # map (\<lambda>(path, loc). locale_item c path loc) es)"
    by (simp add: languageDropdown_def ls split_beta)
  then have t: "type (resolveNavLinkItem (languageDropdown c ls)) = Some ''links''"
    by (rule type_resolved_dropdown)
  have "last (userLinks c) =
      (let resolved = resolveNavLinkItem (languageDropdown c ls)
       in NavItem (text' resolved) (link resolved)
            (Some (map resolveNavLinkItem
               (case items (languageDropdown c ls) of None \<Rightarrow> [] | Some xs \<Rightarrow> xs)))
            (type resolved))"
    by (simp add: userLinks_def n)
  with t have "type (last (userLinks c)) = Some ''links''"
    by (simp add: Let_def)
  moreover have "link (languageDropdown c ls) = None"
    and "map_option length (items (languageDropdown c ls)) = Some (length ls)"
    by (simp_all add: languageDropdown_def)
  ultimately show ?thesis by (simp add: n)
qed

theorem nav_appends_dropdown_witness:
  "locales example_site = Some [(''/'', \<lparr>lang = Some ''en-US''\<rparr>), (''/fr/'', \<lparr>lang = Some ''fr-FR''\<rparr>)]
   \<and> userNav example_site = [NavItem (Some ''Guide'') (Some ''/guide/'') None None]
   \<and> length (nav example_site) = 2
   \<and> take 1 (nav example_site) = userNav example_site
   \<and> map_option length (items (last (nav example_site))) = Some 2
   \<and> type (last (userLinks example_site)) = Some ''links''"
proof -
  have l: "locales example_site =
      Some [(''/'', \<lparr>lang = Some ''en-US''\<rparr>), (''/fr/'', \<lparr>lang = Some ''fr-FR''\<rparr>)]"
    by (simp add: example_site_def)
  have u: "userNav example_site = [NavItem (Some ''Guide'') (Some ''/guide/'') None None]"
    by (simp add: example_site_def userNav_def)
  from nav_appends_dropdown [OF l] u l show ?thesis by (simp add: languageDropdown_def)
qed

text \<open>
  Claim C4. When \<open>locales\<close> is missing or has at most one entry, \<open>nav\<close> returns the
  base list unchanged.
\<close>

theorem nav_identity:
  assumes "(case locales c of None \<Rightarrow> 0 | Some ls \<Rightarrow> length ls) \<le> 1"
  shows "nav c = userNav c"
  using assms by (cases "locales c") (simp_all add: nav_def)

theorem nav_identity_witness:
  "(case locales (example_site\<lparr>locales := Some [(''/'', \<lparr>lang = Some ''en-US''\<rparr>)]\<rparr>) of
      None \<Rightarrow> 0 | Some ls \<Rightarrow> length ls) \<le> 1
   \<and> nav (example_site\<lparr>locales := Some [(''/'', \<lparr>lang = Some ''en-US''\<rparr>)]\<rparr>) =
       [NavItem (Some ''Guide'') (Some ''/guide/'') None None]"
proof -
  let ?c = "example_site\<lparr>locales := Some [(''/'', \<lparr>lang = Some ''en-US''\<rparr>)]\<rparr>"
  have h: "(case locales ?c of None \<Rightarrow> 0 | Some ls \<Rightarrow> length ls) \<le> 1"
    by simp
  have u: "userNav ?c = [NavItem (Some ''Guide'') (Some ''/guide/'') None None]"
    by (simp add: example_site_def userNav_def)
  from nav_identity [OF h] h u show ?thesis by simp
qed

text \<open>
  Claim C5, as amended. Without a repository link there is no label. With one, a
  configured label that is not the empty string is returned as it is. Otherwise, for a
  link made of a scheme \<open>http:\<close> or \<open>https:\<close>, two slashes, a non-empty host and the
  rest, the label is the first of GitHub, GitLab and Bitbucket found in scheme and host,
  case ignored, and \<open>Source\<close> when none is found.
\<close>

theorem repoLabel_cases:
  "(repoLink c = None \<longrightarrow> repoLabel c = Inr None)
   \<and> (repoLink c = Some l \<and> themeConfig_repoLabel c = Some e \<and> e \<noteq> []
        \<longrightarrow> repoLabel c = Inr (Some e))
   \<and> (repoLink c = Some (scheme @ ''//'' @ host @ rest)
        \<and> (themeConfig_repoLabel c = None \<or> themeConfig_repoLabel c = Some [])
        \<and> (scheme = ''http:'' \<or> scheme = ''https:'') \<and> host \<noteq> []
        \<and> CHR ''/'' \<notin> set host \<and> (rest = [] \<or> hd rest = CHR ''/'')
        \<longrightarrow> repoLabel c = Inr (Some (spec_repo_label None (scheme @ ''//'' @ host))))"
proof (intro conjI impI)
  assume "repoLink c = None"
  then show "repoLabel c = Inr None" by (simp add: repoLabel_def truthy_def)
next
  assume "repoLink c = Some l \<and> themeConfig_repoLabel c = Some e \<and> e \<noteq> []"
  then show "repoLabel c = Inr (Some e)"
    by (simp add: repoLabel_present truthy_def)
next
  assume a: "repoLink c = Some (scheme @ ''//'' @ host @ rest)
        \<and> (themeConfig_repoLabel c = None \<or> themeConfig_repoLabel c = Some [])
        \<and> (scheme = ''http:'' \<or> scheme = ''https:'') \<and> host \<noteq> []
        \<and> CHR ''/'' \<notin> set host \<and> (rest = [] \<or> hd rest = CHR ''/'')"
  then have m: "match_origin (scheme @ ''//'' @ host @ rest) = Some (scheme @ ''//'' @ host)"
    by (intro match_origin_parts) simp_all
  from a have f: "\<not> truthy (themeConfig_repoLabel c)" by (auto simp: truthy_def)
  from a have "repoLink c = Some (scheme @ ''//'' @ host @ rest)" by simp
  from repoLabel_present [OF this] f m
  show "repoLabel c = Inr (Some (spec_repo_label None (scheme @ ''//'' @ host)))"
    by (simp add: spec_repo_label_def platform_loop_find)
qed

theorem repoLabel_cases_witness:
  "repoLabel (example_site\<lparr>themeConfig_repo := None\<rparr>) = Inr None
   \<and> repoLabel (example_site\<lparr>themeConfig_repo := Some ''https://example.com/x'',
        themeConfig_repoLabel := Some ''MyRepo''\<rparr>) = Inr (Some ''MyRepo'')
   \<and> repoLabel (example_site\<lparr>themeConfig_repo := Some ''https://gitlab.com/x/y''\<rparr>) =
        Inr (Some ''GitLab'')
   \<and> repoLabel (example_site\<lparr>themeConfig_repo := Some ''https://example.com/x''\<rparr>) =
        Inr (Some ''Source'')"
proof -
  let ?a = "example_site\<lparr>themeConfig_repo := None\<rparr>"
  let ?b = "example_site\<lparr>themeConfig_repo := Some ''https://example.com/x'',
        themeConfig_repoLabel := Some ''MyRepo''\<rparr>"
  let ?g = "example_site\<lparr>themeConfig_repo := Some ''https://gitlab.com/x/y''\<rparr>"
  let ?s = "example_site\<lparr>themeConfig_repo := Some ''https://example.com/x''\<rparr>"
  have la: "repoLink ?a = None" by (simp add: repoLink_def)
  have lb: "repoLink ?b = Some ''https://example.com/x''"
    by (simp add: repoLink_def match_http_scheme_def)
  have lg: "repoLink ?g = Some (''https:'' @ ''//'' @ ''gitlab.com'' @ ''/x/y'')"
    by (simp add: repoLink_def match_http_scheme_def)
  have ls: "repoLink ?s = Some (''https:'' @ ''//'' @ ''example.com'' @ ''/x'')"
    by (simp add: repoLink_def match_http_scheme_def)
  have n: "themeConfig_repoLabel ?g = None" "themeConfig_repoLabel ?s = None"
    by (simp_all add: example_site_def)
  have "repoLabel ?a = Inr None"
    using repoLabel_cases [of ?a] la by simp
  moreover have "repoLabel ?b = Inr (Some ''MyRepo'')"
    using repoLabel_cases [of ?b "''https://example.com/x''" "''MyRepo''"] lb by simp
  moreover have "spec_repo_label None ''https://gitlab.com'' = ''GitLab''"
    by code_simp
  then have "repoLabel ?g = Inr (Some ''GitLab'')"
    using repoLabel_cases [of ?g _ _ "''https:''" "''gitlab.com''" "''/x/y''"] lg n
    by simp
  moreover have "spec_repo_label None ''https://example.com'' = ''Source''"
    by code_simp
  then have "repoLabel ?s = Inr (Some ''Source'')"
    using repoLabel_cases [of ?s _ _ "''https:''" "''example.com''" "''/x''"] ls n
    by simp
  ultimately show ?thesis by simp
qed

text \<open>
  Claim C5 as it is stated fails for a configured label that is the empty string: the
  label is not returned, the platform name is.
\<close>

theorem repoLabel_cases_counterexample:
  "repoLabel (example_site\<lparr>themeConfig_repo := Some ''https://gitlab.com/x/y'',
        themeConfig_repoLabel := Some ''''\<rparr>) = Inr (Some ''GitLab'')
   \<and> spec_repo_label (Some '''') ''https://gitlab.com'' = ''''"
  by code_simp

text \<open>
  Claim C6. There is no repository link exactly when the reference is missing or empty;
  a reference that begins with \<open>http:\<close> or \<open>https:\<close> is the link; any other non-empty
  reference is appended to \<open>https://github.com/\<close>.
\<close>

theorem repoLink_cases:
  "(repoLink c = None \<longleftrightarrow> themeConfig_repo c = None \<or> themeConfig_repo c = Some [])
   \<and> (themeConfig_repo c = Some repo \<and> (prefix ''http:'' repo \<or> prefix ''https:'' repo)
        \<longrightarrow> repoLink c = Some repo)
   \<and> (themeConfig_repo c = Some repo \<and> repo \<noteq> [] \<and> \<not> prefix ''http:'' repo
        \<and> \<not> prefix ''https:'' repo \<longrightarrow> repoLink c = Some (''https://github.com/'' @ repo))"
  by (auto simp: repoLink_def match_http_scheme_def split: option.splits)

theorem repoLink_cases_witness:
  "repoLink (example_site\<lparr>themeConfig_repo := None\<rparr>) = None
   \<and> repoLink (example_site\<lparr>themeConfig_repo := Some ''''\<rparr>) = None
   \<and> repoLink (example_site\<lparr>themeConfig_repo := Some ''https://gitlab.com/x/y''\<rparr>) =
       Some ''https://gitlab.com/x/y''
   \<and> repoLink (example_site\<lparr>themeConfig_repo := Some ''acme/widget''\<rparr>) =
       Some ''https://github.com/acme/widget''"
proof -
  have "repoLink (example_site\<lparr>themeConfig_repo := None\<rparr>) = None"
    using repoLink_cases [of "example_site\<lparr>themeConfig_repo := None\<rparr>" "[]"] by simp
  moreover have "repoLink (example_site\<lparr>themeConfig_repo := Some ''''\<rparr>) = None"
    using repoLink_cases [of "example_site\<lparr>themeConfig_repo := Some ''''\<rparr>" "[]"] by simp
  moreover have "repoLink (example_site\<lparr>themeConfig_repo := Some ''https://gitlab.com/x/y''\<rparr>) =
      Some ''https://gitlab.com/x/y''"
    using repoLink_cases [of "example_site\<lparr>themeConfig_repo := Some ''https://gitlab.com/x/y''\<rparr>"
        "''https://gitlab.com/x/y''"] by simp
  moreover have "repoLink (example_site\<lparr>themeConfig_repo := Some ''acme/widget''\<rparr>) =
      Some ''https://github.com/acme/widget''"
    using repoLink_cases [of "example_site\<lparr>themeConfig_repo := Some ''acme/widget''\<rparr>"
        "''acme/widget''"] by simp
  ultimately show ?thesis by simp
qed

text \<open>
  Claim C7, as amended. The text of the language switcher is the configured
  \<open>selectText\<close> when that is present and not the empty string, and \<open>Languages\<close>
  otherwise.
\<close>

theorem languageDropdown_text:
  assumes "locales c = Some ls" and "1 < length ls"
  shows "text' (last (nav c)) =
    Some (case themeLocaleConfig_selectText c of
            None \<Rightarrow> ''Languages''
          | Some s \<Rightarrow> if s = [] then ''Languages'' else s)"
  using assms
  by (simp add: last_nav_multi languageDropdown_def js_or_def truthy_def split: option.splits)

theorem languageDropdown_text_witness:
  "text' (last (nav example_site)) = Some ''Languages''
   \<and> text' (last (nav (example_site\<lparr>themeLocaleConfig_selectText := Some ''Langues''\<rparr>))) =
       Some ''Langues''"
proof -
  let ?c = "example_site\<lparr>themeLocaleConfig_selectText := Some ''Langues''\<rparr>"
  have l: "locales example_site =
      Some [(''/'', \<lparr>lang = Some ''en-US''\<rparr>), (''/fr/'', \<lparr>lang = Some ''fr-FR''\<rparr>)]"
    "locales ?c = Some [(''/'', \<lparr>lang = Some ''en-US''\<rparr>), (''/fr/'', \<lparr>lang = Some ''fr-FR''\<rparr>)]"
    by (simp_all add: example_site_def)
  have s: "themeLocaleConfig_selectText example_site = None"
    by (simp add: example_site_def)
  from languageDropdown_text [OF l(1)] languageDropdown_text [OF l(2)] s
  show ?thesis by simp
qed

text \<open>
  Claim C7 as it is stated, with \<open>selectText ?? "Languages"\<close>, fails for the empty
  string, which \<open>||\<close> replaces by the default.
\<close>

theorem languageDropdown_text_counterexample:
  "text' (last (nav (example_site\<lparr>themeLocaleConfig_selectText := Some ''''\<rparr>))) =
     Some ''Languages''
   \<and> spec_select_text
        (themeLocaleConfig_selectText (example_site\<lparr>themeLocaleConfig_selectText := Some ''''\<rparr>))
      = ''''"
  by (simp add: example_site_def nav_def userNav_def languageDropdown_def js_or_def truthy_def
      spec_select_text_def)

text \<open>
  Claim C8. \<open>userLinks\<close> returns one entry for each entry of \<open>nav\<close>, in the same order:
  the lengths agree and so do the texts, position by position.
\<close>

theorem userLinks_length:
  "length (userLinks c) = length (nav c) \<and> map text' (userLinks c) = map text' (nav c)"
  by (simp add: userLinks_def Let_def text_resolveNavLinkItem comp_def)

text \<open>
  Claim C9. \<open>nav\<close> changes no array that exists when it is called, the base array
  included, which holds the same items afterwards. When the switcher is appended, the
  result is an array at an address that was free before, holding the items of the base
  array followed by the switcher.
\<close>

theorem nav_ref_frame:
  assumes "valid_refs c h"
  shows "\<exists>base h1 r h' xs.
      userNav_ref c h = (base, h1) \<and> nav_ref c h = Some (r, h')
      \<and> (\<forall>a<length h. deref h' a = deref h a)
      \<and> deref h1 base = Some xs \<and> deref h' base = Some xs
      \<and> (\<forall>ls. locales c = Some ls \<and> 1 < length ls \<longrightarrow>
            deref h r = None \<and> deref h1 r = None
            \<and> deref h' r = Some (xs @ [languageDropdown c ls]))"
proof -
  obtain base h1 where u: "userNav_ref c h = (base, h1)" by (cases "userNav_ref c h")
  have "base < length h1 \<and> (\<exists>k. h1 = h @ k)"
    using assms
  proof (cases rule: userNav_ref_cases)
    case (config b)
    with u show ?thesis by simp
  next
    case fresh
    with u have "base = length h" "h1 = h @ [[]]" by simp_all
    then show ?thesis by simp
  qed
  then obtain k where b: "base < length h1" and k: "h1 = h @ k" by blast
  from b obtain xs where x: "deref h1 base = Some xs" by (simp add: deref_def)
  have old: "\<forall>a<length h. deref h1 a = deref h a"
    by (simp add: k deref_append)
  show ?thesis
  proof (cases "\<exists>ls. locales c = Some ls \<and> 1 < length ls")
    case True
    then obtain ls where ls: "locales c = Some ls" "1 < length ls" by blast
    let ?h' = "h1 @ [xs @ [languageDropdown c ls]]"
    have n: "nav_ref c h = Some (length h1, ?h')"
      using u x ls by (simp add: nav_ref_def alloc_def)
    have 1: "\<forall>a<length h. deref ?h' a = deref h a"
      by (simp add: k deref_def nth_append)
    have 2: "deref ?h' base = Some xs"
      using b x by (simp add: deref_append)
    have 3: "deref h (length h1) = None" "deref h1 (length h1) = None"
      by (simp_all add: k deref_def)
    have 4: "deref ?h' (length h1) = Some (xs @ [languageDropdown c ls])"
      by (rule deref_alloc)
    have 5: "\<forall>ls'. locales c = Some ls' \<and> 1 < length ls' \<longrightarrow>
            deref h (length h1) = None \<and> deref h1 (length h1) = None
            \<and> deref ?h' (length h1) = Some (xs @ [languageDropdown c ls'])"
      using ls 3 4 by simp
    from u n 1 x 2 5 show ?thesis by blast
  next
    case False
    have n: "nav_ref c h = Some (base, h1)"
    proof (cases "locales c")
      case None
      with u show ?thesis by (simp add: nav_ref_def)
    next
      case (Some ls)
      with False have "\<not> 1 < length ls" by simp
      with Some u show ?thesis by (simp add: nav_ref_def)
    qed
    have 5: "\<forall>ls'. locales c = Some ls' \<and> 1 < length ls' \<longrightarrow>
            deref h base = None \<and> deref h1 base = None
            \<and> deref h1 base = Some (xs @ [languageDropdown c ls'])"
      using False by blast
    from u n old x 5 show ?thesis by blast
  qed
qed

theorem nav_ref_frame_witness:
  "valid_refs example_site_ref example_store
   \<and> nav_ref example_site_ref example_store =
       Some (1, [[NavItem (Some ''Guide'') (Some ''/guide/'') None None],
                 [NavItem (Some ''Guide'') (Some ''/guide/'') None None,
                  languageDropdown example_site_ref
                    [(''/'', \<lparr>lang = Some ''en-US''\<rparr>), (''/fr/'', \<lparr>lang = Some ''fr-FR''\<rparr>)]]])
   \<and> (\<exists>r h'. nav_ref example_site_ref example_store = Some (r, h')
        \<and> deref h' 0 = deref example_store 0 \<and> deref example_store r = None)"
proof -
  have v: "valid_refs example_site_ref example_store"
    by (simp add: valid_refs_def example_site_ref_def example_store_def)
  have l: "locales example_site_ref =
      Some [(''/'', \<lparr>lang = Some ''en-US''\<rparr>), (''/fr/'', \<lparr>lang = Some ''fr-FR''\<rparr>)]"
    by (simp add: example_site_ref_def)
  have u: "userNav_ref example_site_ref example_store = (0, example_store)"
    by (simp add: userNav_ref_def example_site_ref_def)
  have n: "nav_ref example_site_ref example_store =
       Some (1, [[NavItem (Some ''Guide'') (Some ''/guide/'') None None],
                 [NavItem (Some ''Guide'') (Some ''/guide/'') None None,
                  languageDropdown example_site_ref
                    [(''/'', \<lparr>lang = Some ''en-US''\<rparr>), (''/fr/'', \<lparr>lang = Some ''fr-FR''\<rparr>)]]])"
  proof -
    have "deref example_store 0 = Some [NavItem (Some ''Guide'') (Some ''/guide/'') None None]"
      by (simp add: deref_def example_store_def)
    then have "nav_ref example_site_ref example_store =
        Some (alloc ([NavItem (Some ''Guide'') (Some ''/guide/'') None None] @
          [languageDropdown example_site_ref
            [(''/'', \<lparr>lang = Some ''en-US''\<rparr>), (''/fr/'', \<lparr>lang = Some ''fr-FR''\<rparr>)]])
          example_store)"
      by (simp add: nav_ref_def u l)
    then show ?thesis by (simp add: alloc_def example_store_def)
  qed
  from nav_ref_frame [OF v] obtain base h1 r h' xs where
    f: "nav_ref example_site_ref example_store = Some (r, h')"
      "\<forall>a<length example_store. deref h' a = deref example_store a"
      "\<forall>ls. locales example_site_ref = Some ls \<and> 1 < length ls \<longrightarrow>
            deref example_store r = None \<and> deref h1 r = None
            \<and> deref h' r = Some (xs @ [languageDropdown example_site_ref ls])"
    by blast
  have "0 < length example_store" by (simp add: example_store_def)
  with f(2) have a: "deref h' 0 = deref example_store 0" by blast
  from f(3) l have b: "deref example_store r = None" by simp
  from f(1) a b have "\<exists>r h'. nav_ref example_site_ref example_store = Some (r, h')
        \<and> deref h' 0 = deref example_store 0 \<and> deref example_store r = None"
    by blast
  with v n show ?thesis by blast
qed

text \<open>
  Claim C10. The base list comes from one source: the \<open>nav\<close> of the locale's theme
  configuration when it is defined, also when it is empty; else the \<open>nav\<close> of the theme
  configuration; else the empty list.
\<close>

theorem userNav_priority:
  "(themeLocaleConfig_nav c = Some n \<longrightarrow> userNav c = n)
   \<and> (themeLocaleConfig_nav c = None \<and> themeConfig_nav c = Some n \<longrightarrow> userNav c = n)
   \<and> (themeLocaleConfig_nav c = None \<and> themeConfig_nav c = None \<longrightarrow> userNav c = [])"
  by (simp add: userNav_def)

theorem userNav_priority_witness:
  "themeConfig_nav example_site = Some [NavItem (Some ''Guide'') (Some ''/guide/'') None None]
   \<and> userNav (example_site\<lparr>themeLocaleConfig_nav := Some []\<rparr>) = []
   \<and> userNav example_site = [NavItem (Some ''Guide'') (Some ''/guide/'') None None]
   \<and> userNav (example_site\<lparr>themeConfig_nav := None\<rparr>) = []"
proof -
  have "userNav (example_site\<lparr>themeLocaleConfig_nav := Some []\<rparr>) = []"
    using userNav_priority [of "example_site\<lparr>themeLocaleConfig_nav := Some []\<rparr>" "[]"]
    by simp
  moreover have "userNav example_site = [NavItem (Some ''Guide'') (Some ''/guide/'') None None]"
    using userNav_priority [of example_site "[NavItem (Some ''Guide'') (Some ''/guide/'') None None]"]
    by (simp add: example_site_def)
  moreover have "userNav (example_site\<lparr>themeConfig_nav := None\<rparr>) = []"
    using userNav_priority [of "example_site\<lparr>themeConfig_nav := None\<rparr>" "[]"]
    by (simp add: example_site_def)
  moreover have "themeConfig_nav example_site =
      Some [NavItem (Some ''Guide'') (Some ''/guide/'') None None]"
    by (simp add: example_site_def)
  ultimately show ?thesis by simp
qed

end
